theory Spec2Isabelle
  imports Complex_Main
begin

section \<open>Labels, errors and the input mappings\<close>

text \<open>
  The script \<^verbatim>\<open>pareto/case_studies/toy_case_study.py\<close> builds an algebraic model from two
  dictionaries: \<^verbatim>\<open>df_sets\<close> (set name to labels) and \<^verbatim>\<open>df_parameters\<close> (parameter name
  to a sparse table keyed by tuples of labels). A dictionary is a map; a table is an
  association list whose keys are the index tuples, looked up with \<open>map_of\<close>.
  Numbers are exact: the values of the tables and their sums are reals, so the rounding
  of Python's floating-point additions is outside this model.
\<close>

type_synonym label = string
type_synonym index = "label list"
type_synonym table = "(index \<times> real) list"

text \<open>
  A \<^verbatim>\<open>KeyError\<close> is raised by Python for a name that a dictionary does not have, and by
  the modelling library for a key of a table that is outside the index sets of the
  parameter it initialises (the component's name and the key).
\<close>

datatype key = MissingName string | InvalidIndex string index

datatype error =
    KeyError key
  | IndexError string
  | TypeError string
  | FileNotFound string
  | DataFormatError string

text \<open>Python's \<^verbatim>\<open>dict[k]\<close>: a missing key raises \<^verbatim>\<open>KeyError(k)\<close>.\<close>

definition getitem :: "(string \<rightharpoonup> 'v) \<Rightarrow> string \<Rightarrow> error + 'v" where
  "getitem dict k = (case dict k of None \<Rightarrow> Inl (KeyError (MissingName k)) | Some v \<Rightarrow> Inr v)"

text \<open>Sequencing of statements: the first exception ends the run.\<close>

definition seq :: "error + 'x \<Rightarrow> ('x \<Rightarrow> error + 'y) \<Rightarrow> error + 'y" where
  "seq r k = (case r of Inl e \<Rightarrow> Inl e | Inr x \<Rightarrow> k x)"

section \<open>The components of the modelling library, as the script uses them\<close>

text \<open>
  \<^verbatim>\<open>Set(initialize=xs)\<close> is an insertion-ordered set: the labels are added one by one and
  a label that is already a member is not added again. \<^verbatim>\<open>s1 | s2\<close> lists the members
  of \<open>s1\<close>, then the members of \<open>s2\<close> that are not in \<open>s1\<close>.
\<close>

definition set_add :: "label list \<Rightarrow> label \<Rightarrow> label list" where
  "set_add s x = (if x \<in> set s then s else s @ [x])"

definition Set_initialize :: "label list \<Rightarrow> label list" where
  "Set_initialize xs = foldl set_add [] xs"

definition set_union :: "label list \<Rightarrow> label list \<Rightarrow> label list" where
  "set_union s1 s2 = s1 @ filter (\<lambda>x. x \<notin> set s1) s2"

text \<open>
  \<^verbatim>\<open>model.name = Param(S1, ..., Sn, default=v, initialize=tbl)\<close> takes the name of the
  attribute it is assigned to and checks every key of the table against the index sets,
  in the order of the table: the first key that is not a tuple of members of
  \<open>S1, ..., Sn\<close> raises a \<^verbatim>\<open>KeyError\<close> for that key, and no parameter is built.
  Otherwise the parameter keeps its index sets, its default and the table, and
  \<^verbatim>\<open>P[i1, ..., in]\<close> is the table's entry, or the default where the table has none. The
  rules below subscript a parameter only with members of the sets that index it, so the
  check of a subscript against the index sets cannot fail there and is left out.
\<close>

record param =
  param_name :: string
  index_sets :: "label list list"
  default_value :: real
  initialize :: table

definition valid_index :: "label list list \<Rightarrow> index \<Rightarrow> bool" where
  "valid_index sets ix = list_all2 (\<lambda>i S. i \<in> set S) ix sets"

definition Param :: "string \<Rightarrow> label list list \<Rightarrow> real \<Rightarrow> table \<Rightarrow> error + param" where
  "Param n sets dflt tbl =
     (case find (\<lambda>entry. \<not> valid_index sets (fst entry)) tbl of
        Some entry \<Rightarrow> Inl (KeyError (InvalidIndex n (fst entry)))
      | None \<Rightarrow>
          Inr \<lparr>param_name = n, index_sets = sets, default_value = dflt, initialize = tbl\<rparr>)"

definition param_getitem :: "param \<Rightarrow> index \<Rightarrow> real" where
  "param_getitem P ix =
     (case map_of (initialize P) ix of Some v \<Rightarrow> v | None \<Rightarrow> default_value P)"

text \<open>
  \<^verbatim>\<open>Var(within=NonNegativeReals)\<close> and \<^verbatim>\<open>Var(S, within=NonNegativeReals)\<close>: a variable
  has the name of the attribute it is assigned to, an optional index set and a domain.
  An occurrence of a variable in an expression is its name with the index tuple
  (empty for a scalar variable).
\<close>

datatype domain = NonNegativeReals

record var =
  var_name :: string
  var_index :: "label list option"
  var_within :: domain

definition Var :: "string \<Rightarrow> label list option \<Rightarrow> domain \<Rightarrow> var" where
  "Var n ix dm = \<lparr>var_name = n, var_index = ix, var_within = dm\<rparr>"

datatype varref = VarRef string index

definition var_scalar :: "var \<Rightarrow> varref" where
  "var_scalar v = VarRef (var_name v) []"

definition var_getitem :: "var \<Rightarrow> label \<Rightarrow> varref" where
  "var_getitem v i = VarRef (var_name v) [i]"

text \<open>
  Every rule of the script returns \<^verbatim>\<open>variable == sum(...)\<close>. The parameters are not
  mutable, so the sum is a number when the rule returns: the body of a constraint is a
  variable occurrence and a number.
\<close>

datatype body = Equality (lhs: varref) (rhs: real)

definition holds :: "(varref \<Rightarrow> real) \<Rightarrow> body \<Rightarrow> bool" where
  "holds asg b = (asg (lhs b) = rhs b)"

text \<open>
  A rule is a Python function of the model alone (\<^verbatim>\<open>def R(model)\<close>) or of the model and
  one index (\<^verbatim>\<open>def R(model, i)\<close>).

  \<^verbatim>\<open>Constraint(rule=R)\<close>, for a rule of the model alone, calls \<open>R(model)\<close>.
  \<^verbatim>\<open>Constraint(S, rule=R)\<close> with a rule of the model and one index builds the body
  \<open>R(model, i)\<close> for each member \<open>i\<close> of \<open>S\<close>. What it does with a rule of the model
  alone is decided inside the library, which is not part of the repository and which
  the script's \<^verbatim>\<open>setup.py\<close> does not pin to a version; the releases of the library
  differ, so it is a parameter of the model:
  \<^item> \<open>ModelOnly\<close> (release 5.7.3): the rule is called as \<open>R(model)\<close> for every index;
  \<^item> \<open>RejectModelRule\<close> (later releases): the registration raises an \<^verbatim>\<open>IndexError\<close>,
    whatever the index set holds, an empty one included.
  No release calls such a rule with two arguments.
\<close>

datatype dispatch = ModelOnly | RejectModelRule

datatype 'm rule = ModelRule "'m \<Rightarrow> body" | IndexRule "'m \<Rightarrow> label \<Rightarrow> body"

definition Constraint :: "('m \<Rightarrow> body) \<Rightarrow> 'm \<Rightarrow> error + body" where
  "Constraint f m = Inr (f m)"

definition Constraint_indexed ::
  "dispatch \<Rightarrow> label list \<Rightarrow> 'm rule \<Rightarrow> 'm \<Rightarrow> error + (label \<times> body) list" where
  "Constraint_indexed disp S r m =
     (case r of
        IndexRule f \<Rightarrow> Inr (map (\<lambda>i. (i, f m i)) S)
      | ModelRule f \<Rightarrow>
          (case disp of
             ModelOnly \<Rightarrow> Inr (map (\<lambda>i. (i, f m)) S)
           | RejectModelRule \<Rightarrow>
               Inl (IndexError
                 ''Cannot initialize multiple indices of a constraint with a single expression'')))"

section \<open>The model object\<close>

text \<open>
  The attributes that \<^verbatim>\<open>create_model\<close> assigns, in the order of the source: six sets,
  six parameters, six variables, and then six constraints. The rules read the sets, the
  parameters and the variables only, so they are functions of any record that has those
  fields.
\<close>

record model_data =
  p :: "label list"
  c :: "label list"
  a :: "label list"
  d :: "label list"
  t :: "label list"
  l :: "label list"
  p_drive_times :: param
  p_completion_demand :: param
  p_flowback_rates :: param
  p_production_rates :: param
  p_initial_disposal_capacity :: param
  p_two_index_column :: param
  v_drive_times :: var
  v_completion_demand :: var
  v_flowback_rates :: var
  v_production_rates :: var
  v_disposal_capacity :: var
  v_two_index_param :: var

record model = model_data +
  e_drive_times :: body
  e_completion_demand :: "(label \<times> body) list"
  e_flowback_rates :: body
  e_production_rates :: body
  e_disposal_capacity :: body
  e_two_index_column_param :: "(label \<times> body) list"

subsection \<open>The rules\<close>

definition DriveTimesEquationRule :: "'z model_data_scheme \<Rightarrow> body" where
  "DriveTimesEquationRule m =
     Equality (var_scalar (v_drive_times m))
       (\<Sum>ll\<leftarrow>l m. \<Sum>lab\<leftarrow>l m. param_getitem (p_drive_times m) [lab, ll])"

definition CompletionDemandRule :: "'z model_data_scheme \<Rightarrow> label \<Rightarrow> body" where
  "CompletionDemandRule m tt =
     Equality (var_getitem (v_completion_demand m) tt)
       (\<Sum>cc\<leftarrow>c m. param_getitem (p_completion_demand m) [cc, tt])"

definition FlowBackRatesRule :: "'z model_data_scheme \<Rightarrow> body" where
  "FlowBackRatesRule m =
     Equality (var_scalar (v_flowback_rates m))
       (\<Sum>tt\<leftarrow>t m. \<Sum>cc\<leftarrow>c m. param_getitem (p_flowback_rates m) [cc, tt])"

definition ProductionRatesRule :: "'z model_data_scheme \<Rightarrow> body" where
  "ProductionRatesRule m =
     Equality (var_scalar (v_production_rates m))
       (\<Sum>tt\<leftarrow>t m. \<Sum>aa\<leftarrow>a m. \<Sum>pp\<leftarrow>p m. param_getitem (p_production_rates m) [pp, aa, tt])"

definition DisposalCapacityRule :: "'z model_data_scheme \<Rightarrow> body" where
  "DisposalCapacityRule m =
     Equality (var_scalar (v_disposal_capacity m))
       (\<Sum>dd\<leftarrow>d m. param_getitem (p_initial_disposal_capacity m) [dd])"

definition TwoIndexColumnParameterRule :: "'z model_data_scheme \<Rightarrow> label \<Rightarrow> body" where
  "TwoIndexColumnParameterRule m di =
     Equality (var_getitem (v_two_index_param m) di)
       (\<Sum>dd\<leftarrow>d m. param_getitem (p_two_index_column m) [di, dd])"

subsection \<open>create\_model\<close>

text \<open>
  The statements of \<^verbatim>\<open>create_model\<close> in their order (lines 16 to 74). A set is built as
  soon as its list has been subscripted, a parameter as soon as its table has been
  subscripted and before the next table is, so a table key outside the index sets ends
  the run before a later name is looked up. \<open>declare_variables\<close> is the model object
  once the six variables have been declared (lines 42 to 47), with the sets and the
  parameters assigned before; \<open>declare_constraints\<close> registers the six constraints,
  each with the rule that the source names at its registration.
\<close>

definition declare_variables ::
  "label list \<Rightarrow> label list \<Rightarrow> label list \<Rightarrow> label list \<Rightarrow> label list \<Rightarrow> label list \<Rightarrow>
   param \<Rightarrow> param \<Rightarrow> param \<Rightarrow> param \<Rightarrow> param \<Rightarrow> param \<Rightarrow> model_data" where
  "declare_variables sp sc sa sd st sl q1 q2 q3 q4 q5 q6 =
     \<lparr>p = sp, c = sc, a = sa, d = sd, t = st, l = sl,
      p_drive_times = q1,
      p_completion_demand = q2,
      p_flowback_rates = q3,
      p_production_rates = q4,
      p_initial_disposal_capacity = q5,
      p_two_index_column = q6,
      v_drive_times = Var ''v_drive_times'' None NonNegativeReals,
      v_completion_demand = Var ''v_completion_demand'' (Some st) NonNegativeReals,
      v_flowback_rates = Var ''v_flowback_rates'' None NonNegativeReals,
      v_production_rates = Var ''v_production_rates'' None NonNegativeReals,
      v_disposal_capacity = Var ''v_disposal_capacity'' None NonNegativeReals,
      v_two_index_param = Var ''v_two_index_param'' (Some sd) NonNegativeReals\<rparr>"

definition register ::
  "model_data \<Rightarrow> body \<Rightarrow> (label \<times> body) list \<Rightarrow> body \<Rightarrow> body \<Rightarrow> body \<Rightarrow>
   (label \<times> body) list \<Rightarrow> model" where
  "register md e1 e2 e3 e4 e5 e6 = model_data.extend md (model.fields e1 e2 e3 e4 e5 e6)"

definition declare_constraints :: "dispatch \<Rightarrow> model_data \<Rightarrow> error + model" where
  "declare_constraints disp md =
     seq (Constraint DriveTimesEquationRule md) (\<lambda>e1.
     seq (Constraint_indexed disp (t md) (ModelRule DriveTimesEquationRule) md) (\<lambda>e2.
     seq (Constraint DriveTimesEquationRule md) (\<lambda>e3.
     seq (Constraint DriveTimesEquationRule md) (\<lambda>e4.
     seq (Constraint DisposalCapacityRule md) (\<lambda>e5.
     seq (Constraint_indexed disp (d md) (IndexRule TwoIndexColumnParameterRule) md) (\<lambda>e6.
     Inr (register md e1 e2 e3 e4 e5 e6)))))))"

definition create_model ::
  "dispatch \<Rightarrow> (string \<rightharpoonup> label list) \<Rightarrow> (string \<rightharpoonup> table) \<Rightarrow> error + model" where
  "create_model disp df_sets df_parameters =
     seq (getitem df_sets ''ProductionPads'') (\<lambda>x1. let sp = Set_initialize x1 in
     seq (getitem df_sets ''CompletionsPads'') (\<lambda>x2. let sc = Set_initialize x2 in
     seq (getitem df_sets ''ProductionTanks'') (\<lambda>x3. let sa = Set_initialize x3 in
     seq (getitem df_sets ''SWDSites'') (\<lambda>x4. let sd = Set_initialize x4 in
     seq (getitem df_sets ''TimePeriods'') (\<lambda>x5. let st = Set_initialize x5 in
     let sl = Set_initialize (set_union (set_union (set_union sp sc) sa) sd) in
     seq (getitem df_parameters ''DriveTimes'') (\<lambda>y1.
     seq (Param ''p_drive_times'' [sl, sl] 0 y1) (\<lambda>q1.
     seq (getitem df_parameters ''CompletionsDemand'') (\<lambda>y2.
     seq (Param ''p_completion_demand'' [sc, st] 0 y2) (\<lambda>q2.
     seq (getitem df_parameters ''FlowbackRates'') (\<lambda>y3.
     seq (Param ''p_flowback_rates'' [sc, st] 0 y3) (\<lambda>q3.
     seq (getitem df_parameters ''ProductionRates'') (\<lambda>y4.
     seq (Param ''p_production_rates'' [sp, sa, st] 0 y4) (\<lambda>q4.
     seq (getitem df_parameters ''InitialDisposalCapacity'') (\<lambda>y5.
     seq (Param ''p_initial_disposal_capacity'' [sd] 0 y5) (\<lambda>q5.
     seq (getitem df_parameters ''TwoIndexColumnParam'') (\<lambda>y6.
     seq (Param ''p_two_index_column'' [sd, sd] 0 y6) (\<lambda>q6.
     declare_constraints disp
       (declare_variables sp sc sa sd st sl q1 q2 q3 q4 q5 q6))))))))))))))))))"



text \<open>
  The inputs for which nothing before the constraints raises: the five set names and
  the six parameter names are present, and every key of every table is a tuple of
  members of the index sets of its parameter.
\<close>

definition table_valid :: "label list list \<Rightarrow> table option \<Rightarrow> bool" where
  "table_valid sets tbl =
     (case tbl of None \<Rightarrow> False | Some y \<Rightarrow> list_all (\<lambda>entry. valid_index sets (fst entry)) y)"

definition inputs_well_formed :: "(string \<rightharpoonup> label list) \<Rightarrow> (string \<rightharpoonup> table) \<Rightarrow> bool" where
  "inputs_well_formed df_sets df_parameters =
     (case (df_sets ''ProductionPads'', df_sets ''CompletionsPads'',
            df_sets ''ProductionTanks'', df_sets ''SWDSites'', df_sets ''TimePeriods'') of
        (Some x1, Some x2, Some x3, Some x4, Some x5) \<Rightarrow>
          (let sp = Set_initialize x1; sc = Set_initialize x2; sa = Set_initialize x3;
               sd = Set_initialize x4; st = Set_initialize x5;
               sl = Set_initialize (set_union (set_union (set_union sp sc) sa) sd)
           in table_valid [sl, sl] (df_parameters ''DriveTimes'') \<and>
              table_valid [sc, st] (df_parameters ''CompletionsDemand'') \<and>
              table_valid [sc, st] (df_parameters ''FlowbackRates'') \<and>
              table_valid [sp, sa, st] (df_parameters ''ProductionRates'') \<and>
              table_valid [sd] (df_parameters ''InitialDisposalCapacity'') \<and>
              table_valid [sd, sd] (df_parameters ''TwoIndexColumnParam''))
      | _ \<Rightarrow> False)"

subsection \<open>Reading a model\<close>

text \<open>
  All constraint bodies of a model, in the order of registration.
\<close>

definition constraints :: "model \<Rightarrow> body list" where
  "constraints m =
     e_drive_times m # map snd (e_completion_demand m) @
     [e_flowback_rates m, e_production_rates m, e_disposal_capacity m] @
     map snd (e_two_index_column_param m)"

section \<open>The data loader and the script\<close>

text \<open>
  Modelled from the spec: \<^verbatim>\<open>pareto.utilities.get_data\<close> is imported by the script but
  its file is not among the sources. The spec's contract (4.1, 7): given a file path, a
  list of set-tab names and a list of parameter-tab names, it reads one spreadsheet tab
  per name and returns a mapping from set name to labels and a mapping from parameter
  name to a sparse table; a bad path is \<^verbatim>\<open>FileNotFound\<close>, a named tab that is absent or
  malformed is \<^verbatim>\<open>DataFormatError\<close>. A tab holds the labels of a set, the table of a
  parameter, or is malformed; a tab of the other shape is a shape mismatch.
\<close>

datatype tab = SetTab "label list" | ParamTab table | MalformedTab

type_synonym workbook = "string \<rightharpoonup> tab"

text \<open>
  Modelled from the spec: the set tabs are read one per name, in order; the first name
  whose tab is absent or is not a well-formed set tab ends the run.
\<close>

fun read_set_tabs ::
  "workbook \<Rightarrow> string list \<Rightarrow> (string \<rightharpoonup> label list) \<Rightarrow> error + (string \<rightharpoonup> label list)" where
  "read_set_tabs wb [] acc = Inr acc"
| "read_set_tabs wb (n # ns) acc =
     (case wb n of
        Some (SetTab xs) \<Rightarrow> read_set_tabs wb ns (acc(n \<mapsto> xs))
      | _ \<Rightarrow> Inl (DataFormatError n))"

text \<open>
  Modelled from the spec: the parameter tabs are read in the same way.
\<close>

fun read_parameter_tabs ::
  "workbook \<Rightarrow> string list \<Rightarrow> (string \<rightharpoonup> table) \<Rightarrow> error + (string \<rightharpoonup> table)" where
  "read_parameter_tabs wb [] acc = Inr acc"
| "read_parameter_tabs wb (n # ns) acc =
     (case wb n of
        Some (ParamTab tbl) \<Rightarrow> read_parameter_tabs wb ns (acc(n \<mapsto> tbl))
      | _ \<Rightarrow> Inl (DataFormatError n))"

text \<open>
  Modelled from the spec: \<^verbatim>\<open>get_data(fpath, set_list, parameter_list)\<close>. The files are a
  map from path to workbook. Both mappings are returned together, or an error and
  nothing else.
\<close>

definition get_data ::
  "(string \<rightharpoonup> workbook) \<Rightarrow> string \<Rightarrow> string list \<Rightarrow> string list \<Rightarrow>
   error + ((string \<rightharpoonup> label list) \<times> (string \<rightharpoonup> table))" where
  "get_data files fpath sets params =
     (case files fpath of
        None \<Rightarrow> Inl (FileNotFound fpath)
      | Some wb \<Rightarrow>
          seq (read_set_tabs wb sets Map.empty) (\<lambda>df_sets.
          seq (read_parameter_tabs wb params Map.empty) (\<lambda>df_parameters.
          Inr (df_sets, df_parameters))))"

text \<open>
  Modelled from the spec: a named tab is well-formed for the place it is read from.
\<close>

definition set_tab_ok :: "workbook \<Rightarrow> string \<Rightarrow> bool" where
  "set_tab_ok wb n = (case wb n of Some (SetTab xs) \<Rightarrow> True | _ \<Rightarrow> False)"

definition parameter_tab_ok :: "workbook \<Rightarrow> string \<Rightarrow> bool" where
  "parameter_tab_ok wb n = (case wb n of Some (ParamTab tbl) \<Rightarrow> True | _ \<Rightarrow> False)"

text \<open>
  The script's \<^verbatim>\<open>__main__\<close> block: the two lists of tab names as the source writes
  them, the call of \<^verbatim>\<open>get_data\<close>, and \<^verbatim>\<open>create_model\<close> on what it returns.
\<close>

definition set_list :: "string list" where
  "set_list = [''ProductionPads'', ''CompletionsPads'', ''SWDSites'', ''ProductionTanks'']"

definition parameter_list :: "string list" where
  "parameter_list =
     [''DriveTimes'', ''CompletionsDemand'', ''FlowbackRates'', ''ProductionRates'',
      ''InitialDisposalCapacity'', ''TwoIndexColumnParam'']"

definition main :: "dispatch \<Rightarrow> (string \<rightharpoonup> workbook) \<Rightarrow> string \<Rightarrow> error + model" where
  "main disp files fpath =
     seq (get_data files fpath set_list parameter_list) (\<lambda>(df_sets, df_parameters).
     create_model disp df_sets df_parameters)"

section \<open>Example inputs\<close>

text \<open>
  The spec's scenario: one label in each set, 50 for \<open>D1\<close> in the table of
  \<^verbatim>\<open>InitialDisposalCapacity\<close>, every other table empty. The second family of tables has
  one entry in each of the first five tables. The third is the scenario's tables with
  the key \<open>(T1, T1)\<close>, which is outside \<open>l \<times> l\<close>, in \<^verbatim>\<open>DriveTimes\<close> and with no table
  for \<^verbatim>\<open>CompletionsDemand\<close>.
\<close>

definition scenario_sets :: "string \<rightharpoonup> label list" where
  "scenario_sets =
     [''ProductionPads'' \<mapsto> [''P1''], ''CompletionsPads'' \<mapsto> [''C1''],
      ''SWDSites'' \<mapsto> [''D1''], ''ProductionTanks'' \<mapsto> [''A1''],
      ''TimePeriods'' \<mapsto> [''T1'']]"

definition scenario_parameters :: "string \<rightharpoonup> table" where
  "scenario_parameters =
     [''DriveTimes'' \<mapsto> [], ''CompletionsDemand'' \<mapsto> [], ''FlowbackRates'' \<mapsto> [],
      ''ProductionRates'' \<mapsto> [], ''InitialDisposalCapacity'' \<mapsto> [([''D1''], 50)],
      ''TwoIndexColumnParam'' \<mapsto> []]"

definition example_parameters :: "string \<rightharpoonup> table" where
  "example_parameters =
     [''DriveTimes'' \<mapsto> [([''P1'', ''C1''], 3)],
      ''CompletionsDemand'' \<mapsto> [([''C1'', ''T1''], 5)],
      ''FlowbackRates'' \<mapsto> [([''C1'', ''T1''], 7)],
      ''ProductionRates'' \<mapsto> [([''P1'', ''A1'', ''T1''], 11)],
      ''InitialDisposalCapacity'' \<mapsto> [([''D1''], 50)],
      ''TwoIndexColumnParam'' \<mapsto> []]"


section \<open>Sequencing and the library components\<close>

lemma seq_Inr_iff: "seq r k = Inr y \<longleftrightarrow> (\<exists>x. r = Inr x \<and> k x = Inr y)"
  by (cases r) (simp_all add: seq_def)

lemma seq_Inr: "seq (Inr x) k = k x"
  by (simp add: seq_def)

lemma seq_Inl: "seq (Inl e) k = Inl e"
  by (simp add: seq_def)

lemma getitem_Some: "dict k = Some v \<Longrightarrow> getitem dict k = Inr v"
  by (simp add: getitem_def)


lemma getitem_Inr_iff: "getitem dict k = Inr v \<longleftrightarrow> dict k = Some v"
  by (simp add: getitem_def split: option.splits)

lemma set_foldl_set_add: "set (foldl set_add acc xs) = set acc \<union> set xs"
  by (induction xs arbitrary: acc) (auto simp: set_add_def)

lemma distinct_foldl_set_add: "distinct acc \<Longrightarrow> distinct (foldl set_add acc xs)"
  by (induction xs arbitrary: acc) (auto simp: set_add_def)

lemma set_Set_initialize: "set (Set_initialize xs) = set xs"
  by (simp add: Set_initialize_def set_foldl_set_add)

lemma distinct_Set_initialize: "distinct (Set_initialize xs)"
  by (simp add: Set_initialize_def distinct_foldl_set_add)

lemma Set_initialize_Nil_iff: "Set_initialize xs = [] \<longleftrightarrow> xs = []"
proof -
  have "Set_initialize xs = [] \<longleftrightarrow> set (Set_initialize xs) = {}"
    by simp
  then show ?thesis
    by (simp add: set_Set_initialize)
qed

lemma set_set_union: "set (set_union s1 s2) = set s1 \<union> set s2"
  by (auto simp: set_union_def)

text \<open>
  A parameter is built exactly when every key of its table is within the index sets;
  otherwise the error is the \<^verbatim>\<open>KeyError\<close> of a key of the table that is not.
\<close>

lemma Param_Inr_iff:
  "Param n sets dflt tbl = Inr q \<longleftrightarrow>
     list_all (\<lambda>entry. valid_index sets (fst entry)) tbl \<and>
     q = \<lparr>param_name = n, index_sets = sets, default_value = dflt, initialize = tbl\<rparr>"
proof -
  have "find (\<lambda>entry. \<not> valid_index sets (fst entry)) tbl = None \<longleftrightarrow>
      list_all (\<lambda>entry. valid_index sets (fst entry)) tbl"
    by (auto simp: find_None_iff list_all_iff)
  then show ?thesis
    by (cases "find (\<lambda>entry. \<not> valid_index sets (fst entry)) tbl")
      (auto simp: Param_def)
qed


lemma Param_valid:
  "table_valid sets tbl \<Longrightarrow>
   \<exists>y. tbl = Some y \<and>
     Param n sets dflt y =
       Inr \<lparr>param_name = n, index_sets = sets, default_value = dflt, initialize = y\<rparr>"
  by (auto simp: table_valid_def Param_Inr_iff split: option.splits)

lemma Constraint_Inr: "Constraint f m = Inr (f m)"
  by (simp add: Constraint_def)

lemma Constraint_indexed_IndexRule:
  "Constraint_indexed disp S (IndexRule f) m = Inr (map (\<lambda>i. (i, f m i)) S)"
  by (simp add: Constraint_indexed_def)

lemma Constraint_indexed_ModelRule_Inr:
  "Constraint_indexed disp S (ModelRule f) m = Inr es \<longleftrightarrow>
     disp = ModelOnly \<and> es = map (\<lambda>i. (i, f m)) S"
  by (cases disp) (auto simp: Constraint_indexed_def)

lemma Constraint_indexed_RejectModelRule:
  "Constraint_indexed RejectModelRule S (ModelRule f) m =
     Inl (IndexError
       ''Cannot initialize multiple indices of a constraint with a single expression'')"
  by (simp add: Constraint_indexed_def)

section \<open>What a returned model holds\<close>

lemma register_sets:
  "p (register md e1 e2 e3 e4 e5 e6) = p md"
  "c (register md e1 e2 e3 e4 e5 e6) = c md"
  "a (register md e1 e2 e3 e4 e5 e6) = a md"
  "d (register md e1 e2 e3 e4 e5 e6) = d md"
  "t (register md e1 e2 e3 e4 e5 e6) = t md"
  "l (register md e1 e2 e3 e4 e5 e6) = l md"
  by (simp_all add: register_def model_data.defs model.defs)

lemma register_params:
  "p_drive_times (register md e1 e2 e3 e4 e5 e6) = p_drive_times md"
  "p_completion_demand (register md e1 e2 e3 e4 e5 e6) = p_completion_demand md"
  "p_flowback_rates (register md e1 e2 e3 e4 e5 e6) = p_flowback_rates md"
  "p_production_rates (register md e1 e2 e3 e4 e5 e6) = p_production_rates md"
  "p_initial_disposal_capacity (register md e1 e2 e3 e4 e5 e6) =
     p_initial_disposal_capacity md"
  "p_two_index_column (register md e1 e2 e3 e4 e5 e6) = p_two_index_column md"
  by (simp_all add: register_def model_data.defs model.defs)

lemma register_vars:
  "v_drive_times (register md e1 e2 e3 e4 e5 e6) = v_drive_times md"
  "v_completion_demand (register md e1 e2 e3 e4 e5 e6) = v_completion_demand md"
  "v_flowback_rates (register md e1 e2 e3 e4 e5 e6) = v_flowback_rates md"
  "v_production_rates (register md e1 e2 e3 e4 e5 e6) = v_production_rates md"
  "v_disposal_capacity (register md e1 e2 e3 e4 e5 e6) = v_disposal_capacity md"
  "v_two_index_param (register md e1 e2 e3 e4 e5 e6) = v_two_index_param md"
  by (simp_all add: register_def model_data.defs model.defs)

lemma register_constraints:
  "e_drive_times (register md e1 e2 e3 e4 e5 e6) = e1"
  "e_completion_demand (register md e1 e2 e3 e4 e5 e6) = e2"
  "e_flowback_rates (register md e1 e2 e3 e4 e5 e6) = e3"
  "e_production_rates (register md e1 e2 e3 e4 e5 e6) = e4"
  "e_disposal_capacity (register md e1 e2 e3 e4 e5 e6) = e5"
  "e_two_index_column_param (register md e1 e2 e3 e4 e5 e6) = e6"
  by (simp_all add: register_def model_data.defs model.defs)

lemmas register_simps = register_sets register_params register_vars register_constraints

lemma register_rules:
  "DriveTimesEquationRule (register md e1 e2 e3 e4 e5 e6) = DriveTimesEquationRule md"
  "CompletionDemandRule (register md e1 e2 e3 e4 e5 e6) = CompletionDemandRule md"
  "FlowBackRatesRule (register md e1 e2 e3 e4 e5 e6) = FlowBackRatesRule md"
  "ProductionRatesRule (register md e1 e2 e3 e4 e5 e6) = ProductionRatesRule md"
  "DisposalCapacityRule (register md e1 e2 e3 e4 e5 e6) = DisposalCapacityRule md"
  "TwoIndexColumnParameterRule (register md e1 e2 e3 e4 e5 e6) =
     TwoIndexColumnParameterRule md"
  by (simp_all add: DriveTimesEquationRule_def CompletionDemandRule_def
      FlowBackRatesRule_def ProductionRatesRule_def DisposalCapacityRule_def
      TwoIndexColumnParameterRule_def register_simps fun_eq_iff)

text \<open>
  The six registrations return a model exactly when the library calls a rule of the
  model alone with the model alone; otherwise the registration of \<open>e_completion_demand\<close>
  raises, after \<open>e_drive_times\<close> has been built.
\<close>

lemma declare_constraints_Inr:
  "declare_constraints disp md = Inr m \<longleftrightarrow>
     disp = ModelOnly \<and>
     m = register md (DriveTimesEquationRule md)
           (map (\<lambda>i. (i, DriveTimesEquationRule md)) (t md))
           (DriveTimesEquationRule md) (DriveTimesEquationRule md)
           (DisposalCapacityRule md)
           (map (\<lambda>i. (i, TwoIndexColumnParameterRule md i)) (d md))"
  by (auto simp: declare_constraints_def seq_Inr_iff Constraint_Inr
      Constraint_indexed_ModelRule_Inr Constraint_indexed_IndexRule)

lemma declare_constraints_RejectModelRule:
  "declare_constraints RejectModelRule md =
     Inl (IndexError
       ''Cannot initialize multiple indices of a constraint with a single expression'')"
  by (simp add: declare_constraints_def Constraint_Inr seq_Inr seq_Inl
      Constraint_indexed_RejectModelRule)

lemma create_model_Inr:
  assumes "create_model disp df_sets df_parameters = Inr m"
  obtains md x1 x2 x3 x4 x5 y1 y2 y3 y4 y5 y6 where
    "df_sets ''ProductionPads'' = Some x1" "df_sets ''CompletionsPads'' = Some x2"
    "df_sets ''ProductionTanks'' = Some x3" "df_sets ''SWDSites'' = Some x4"
    "df_sets ''TimePeriods'' = Some x5"
    "df_parameters ''DriveTimes'' = Some y1" "df_parameters ''CompletionsDemand'' = Some y2"
    "df_parameters ''FlowbackRates'' = Some y3" "df_parameters ''ProductionRates'' = Some y4"
    "df_parameters ''InitialDisposalCapacity'' = Some y5"
    "df_parameters ''TwoIndexColumnParam'' = Some y6"
    "p md = Set_initialize x1" "c md = Set_initialize x2" "a md = Set_initialize x3"
    "d md = Set_initialize x4" "t md = Set_initialize x5"
    "l md = Set_initialize (set_union (set_union (set_union (p md) (c md)) (a md)) (d md))"
    "Param ''p_drive_times'' [l md, l md] 0 y1 = Inr (p_drive_times md)"
    "Param ''p_completion_demand'' [c md, t md] 0 y2 = Inr (p_completion_demand md)"
    "Param ''p_flowback_rates'' [c md, t md] 0 y3 = Inr (p_flowback_rates md)"
    "Param ''p_production_rates'' [p md, a md, t md] 0 y4 = Inr (p_production_rates md)"
    "Param ''p_initial_disposal_capacity'' [d md] 0 y5 = Inr (p_initial_disposal_capacity md)"
    "Param ''p_two_index_column'' [d md, d md] 0 y6 = Inr (p_two_index_column md)"
    "var_name (v_drive_times md) = ''v_drive_times''"
    "var_name (v_completion_demand md) = ''v_completion_demand''"
    "var_name (v_flowback_rates md) = ''v_flowback_rates''"
    "var_name (v_production_rates md) = ''v_production_rates''"
    "var_name (v_disposal_capacity md) = ''v_disposal_capacity''"
    "var_name (v_two_index_param md) = ''v_two_index_param''"
    "declare_constraints disp md = Inr m"
proof -
  let ?sl = "\<lambda>x1 x2 x3 x4. Set_initialize (set_union (set_union (set_union
      (Set_initialize x1) (Set_initialize x2)) (Set_initialize x3)) (Set_initialize x4))"
  from assms [unfolded create_model_def seq_Inr_iff getitem_Inr_iff Let_def]
  obtain x1 x2 x3 x4 x5 y1 y2 y3 y4 y5 y6 q1 q2 q3 q4 q5 q6
    where s: "df_sets ''ProductionPads'' = Some x1" "df_sets ''CompletionsPads'' = Some x2"
      "df_sets ''ProductionTanks'' = Some x3" "df_sets ''SWDSites'' = Some x4"
      "df_sets ''TimePeriods'' = Some x5"
    and ps: "df_parameters ''DriveTimes'' = Some y1"
      "df_parameters ''CompletionsDemand'' = Some y2"
      "df_parameters ''FlowbackRates'' = Some y3" "df_parameters ''ProductionRates'' = Some y4"
      "df_parameters ''InitialDisposalCapacity'' = Some y5"
      "df_parameters ''TwoIndexColumnParam'' = Some y6"
    and qs: "Param ''p_drive_times'' [?sl x1 x2 x3 x4, ?sl x1 x2 x3 x4] 0 y1 = Inr q1"
      "Param ''p_completion_demand'' [Set_initialize x2, Set_initialize x5] 0 y2 = Inr q2"
      "Param ''p_flowback_rates'' [Set_initialize x2, Set_initialize x5] 0 y3 = Inr q3"
      "Param ''p_production_rates''
         [Set_initialize x1, Set_initialize x3, Set_initialize x5] 0 y4 = Inr q4"
      "Param ''p_initial_disposal_capacity'' [Set_initialize x4] 0 y5 = Inr q5"
      "Param ''p_two_index_column'' [Set_initialize x4, Set_initialize x4] 0 y6 = Inr q6"
    and dc: "declare_constraints disp
        (declare_variables (Set_initialize x1) (Set_initialize x2) (Set_initialize x3)
           (Set_initialize x4) (Set_initialize x5) (?sl x1 x2 x3 x4)
           q1 q2 q3 q4 q5 q6) = Inr m"
    by (elim exE conjE) (rule that)
  define md where "md = declare_variables (Set_initialize x1) (Set_initialize x2)
      (Set_initialize x3) (Set_initialize x4) (Set_initialize x5) (?sl x1 x2 x3 x4)
      q1 q2 q3 q4 q5 q6"
  have fields: "p md = Set_initialize x1" "c md = Set_initialize x2"
    "a md = Set_initialize x3" "d md = Set_initialize x4" "t md = Set_initialize x5"
    "l md = ?sl x1 x2 x3 x4"
    "p_drive_times md = q1" "p_completion_demand md = q2" "p_flowback_rates md = q3"
    "p_production_rates md = q4" "p_initial_disposal_capacity md = q5"
    "p_two_index_column md = q6"
    "var_name (v_drive_times md) = ''v_drive_times''"
    "var_name (v_completion_demand md) = ''v_completion_demand''"
    "var_name (v_flowback_rates md) = ''v_flowback_rates''"
    "var_name (v_production_rates md) = ''v_production_rates''"
    "var_name (v_disposal_capacity md) = ''v_disposal_capacity''"
    "var_name (v_two_index_param md) = ''v_two_index_param''"
    by (simp_all add: md_def declare_variables_def Var_def)
  show thesis
    by (rule that [of x1 x2 x3 x4 x5 y1 y2 y3 y4 y5 y6 md])
      (simp_all add: s ps fields qs dc [folded md_def])
qed

text \<open>
  For well-formed inputs everything before the constraints succeeds, so the outcome is
  that of the six registrations.
\<close>

lemma create_model_well_formed:
  assumes "inputs_well_formed df_sets df_parameters"
  shows "\<exists>md. create_model disp df_sets df_parameters = declare_constraints disp md"
proof -
  from assms obtain x1 x2 x3 x4 x5 where
    s: "df_sets ''ProductionPads'' = Some x1" "df_sets ''CompletionsPads'' = Some x2"
      "df_sets ''ProductionTanks'' = Some x3" "df_sets ''SWDSites'' = Some x4"
      "df_sets ''TimePeriods'' = Some x5"
    by (auto simp: inputs_well_formed_def split: option.splits)
  define sp where "sp = Set_initialize x1"
  define sc where "sc = Set_initialize x2"
  define sa where "sa = Set_initialize x3"
  define sd where "sd = Set_initialize x4"
  define st where "st = Set_initialize x5"
  define sl where "sl = Set_initialize (set_union (set_union (set_union sp sc) sa) sd)"
  from assms have v: "table_valid [sl, sl] (df_parameters ''DriveTimes'')"
    "table_valid [sc, st] (df_parameters ''CompletionsDemand'')"
    "table_valid [sc, st] (df_parameters ''FlowbackRates'')"
    "table_valid [sp, sa, st] (df_parameters ''ProductionRates'')"
    "table_valid [sd] (df_parameters ''InitialDisposalCapacity'')"
    "table_valid [sd, sd] (df_parameters ''TwoIndexColumnParam'')"
    by (simp_all add: inputs_well_formed_def s Let_def sp_def sc_def sa_def sd_def st_def
        sl_def)
  from Param_valid [OF v(1), of "''p_drive_times''" 0] obtain y1 q1 where
    1: "df_parameters ''DriveTimes'' = Some y1" "Param ''p_drive_times'' [sl, sl] 0 y1 = Inr q1"
    by blast
  from Param_valid [OF v(2), of "''p_completion_demand''" 0] obtain y2 q2 where
    2: "df_parameters ''CompletionsDemand'' = Some y2"
      "Param ''p_completion_demand'' [sc, st] 0 y2 = Inr q2"
    by blast
  from Param_valid [OF v(3), of "''p_flowback_rates''" 0] obtain y3 q3 where
    3: "df_parameters ''FlowbackRates'' = Some y3"
      "Param ''p_flowback_rates'' [sc, st] 0 y3 = Inr q3"
    by blast
  from Param_valid [OF v(4), of "''p_production_rates''" 0] obtain y4 q4 where
    4: "df_parameters ''ProductionRates'' = Some y4"
      "Param ''p_production_rates'' [sp, sa, st] 0 y4 = Inr q4"
    by blast
  from Param_valid [OF v(5), of "''p_initial_disposal_capacity''" 0] obtain y5 q5 where
    5: "df_parameters ''InitialDisposalCapacity'' = Some y5"
      "Param ''p_initial_disposal_capacity'' [sd] 0 y5 = Inr q5"
    by blast
  from Param_valid [OF v(6), of "''p_two_index_column''" 0] obtain y6 q6 where
    6: "df_parameters ''TwoIndexColumnParam'' = Some y6"
      "Param ''p_two_index_column'' [sd, sd] 0 y6 = Inr q6"
    by blast
  have "create_model disp df_sets df_parameters =
      declare_constraints disp (declare_variables sp sc sa sd st sl q1 q2 q3 q4 q5 q6)"
    unfolding create_model_def
    by (simp add: getitem_Some s seq_Inr Let_def sp_def [symmetric] sc_def [symmetric]
        sa_def [symmetric] sd_def [symmetric] st_def [symmetric] sl_def [symmetric]
        1 2 3 4 5 6)
  then show ?thesis ..
qed

lemma create_model_returns:
  "inputs_well_formed df_sets df_parameters \<Longrightarrow>
   \<exists>m. create_model ModelOnly df_sets df_parameters = Inr m"
  using create_model_well_formed [of df_sets df_parameters ModelOnly]
  by (auto simp: declare_constraints_Inr)

lemma create_model_RejectModelRule:
  "inputs_well_formed df_sets df_parameters \<Longrightarrow>
   create_model RejectModelRule df_sets df_parameters =
     Inl (IndexError
       ''Cannot initialize multiple indices of a constraint with a single expression'')"
  using create_model_well_formed [of df_sets df_parameters RejectModelRule]
  by (auto simp: declare_constraints_RejectModelRule)

text \<open>
  What every returned model has, whatever the inputs: the sets, the names of the
  variables, and the bodies of the six constraints.
\<close>

lemma returned_model:
  assumes "create_model disp df_sets df_parameters = Inr m"
  shows "e_drive_times m = DriveTimesEquationRule m"
    and "e_completion_demand m = map (\<lambda>i. (i, DriveTimesEquationRule m)) (t m)"
    and "e_flowback_rates m = DriveTimesEquationRule m"
    and "e_production_rates m = DriveTimesEquationRule m"
    and "e_disposal_capacity m = DisposalCapacityRule m"
    and "e_two_index_column_param m =
           map (\<lambda>i. (i, TwoIndexColumnParameterRule m i)) (d m)"
    and "var_name (v_drive_times m) = ''v_drive_times''"
    and "var_name (v_completion_demand m) = ''v_completion_demand''"
    and "var_name (v_flowback_rates m) = ''v_flowback_rates''"
    and "var_name (v_production_rates m) = ''v_production_rates''"
    and "var_name (v_disposal_capacity m) = ''v_disposal_capacity''"
    and "var_name (v_two_index_param m) = ''v_two_index_param''"
    and "disp = ModelOnly"
proof -
  from assms obtain md where
    names: "var_name (v_drive_times md) = ''v_drive_times''"
      "var_name (v_completion_demand md) = ''v_completion_demand''"
      "var_name (v_flowback_rates md) = ''v_flowback_rates''"
      "var_name (v_production_rates md) = ''v_production_rates''"
      "var_name (v_disposal_capacity md) = ''v_disposal_capacity''"
      "var_name (v_two_index_param md) = ''v_two_index_param''"
    and dc: "declare_constraints disp md = Inr m"
    by (rule create_model_Inr)
  from dc have m: "m = register md (DriveTimesEquationRule md)
           (map (\<lambda>i. (i, DriveTimesEquationRule md)) (t md))
           (DriveTimesEquationRule md) (DriveTimesEquationRule md)
           (DisposalCapacityRule md)
           (map (\<lambda>i. (i, TwoIndexColumnParameterRule md i)) (d md))"
    and "disp = ModelOnly"
    by (simp_all add: declare_constraints_Inr)
  then show "disp = ModelOnly" by simp
  show "e_drive_times m = DriveTimesEquationRule m"
    and "e_completion_demand m = map (\<lambda>i. (i, DriveTimesEquationRule m)) (t m)"
    and "e_flowback_rates m = DriveTimesEquationRule m"
    and "e_production_rates m = DriveTimesEquationRule m"
    and "e_disposal_capacity m = DisposalCapacityRule m"
    and "e_two_index_column_param m =
           map (\<lambda>i. (i, TwoIndexColumnParameterRule m i)) (d m)"
    by (simp_all add: m register_simps register_rules)
  show "var_name (v_drive_times m) = ''v_drive_times''"
    and "var_name (v_completion_demand m) = ''v_completion_demand''"
    and "var_name (v_flowback_rates m) = ''v_flowback_rates''"
    and "var_name (v_production_rates m) = ''v_production_rates''"
    and "var_name (v_disposal_capacity m) = ''v_disposal_capacity''"
    and "var_name (v_two_index_param m) = ''v_two_index_param''"
    by (simp_all add: m register_simps names)
qed

text \<open>
  The sets and the tables of a returned model, from the inputs.
\<close>

lemma returned_model_data:
  assumes "create_model disp df_sets df_parameters = Inr m"
  obtains x1 x2 x3 x4 x5 y1 y2 y3 y4 y5 y6 where
    "df_sets ''ProductionPads'' = Some x1" "df_sets ''CompletionsPads'' = Some x2"
    "df_sets ''ProductionTanks'' = Some x3" "df_sets ''SWDSites'' = Some x4"
    "df_sets ''TimePeriods'' = Some x5"
    "df_parameters ''DriveTimes'' = Some y1" "df_parameters ''CompletionsDemand'' = Some y2"
    "df_parameters ''FlowbackRates'' = Some y3" "df_parameters ''ProductionRates'' = Some y4"
    "df_parameters ''InitialDisposalCapacity'' = Some y5"
    "df_parameters ''TwoIndexColumnParam'' = Some y6"
    "p m = Set_initialize x1" "c m = Set_initialize x2" "a m = Set_initialize x3"
    "d m = Set_initialize x4" "t m = Set_initialize x5"
    "l m = Set_initialize (set_union (set_union (set_union (p m) (c m)) (a m)) (d m))"
    "param_getitem (p_drive_times m) = (\<lambda>ix. case map_of y1 ix of Some v \<Rightarrow> v | None \<Rightarrow> 0)"
    "param_getitem (p_completion_demand m) =
       (\<lambda>ix. case map_of y2 ix of Some v \<Rightarrow> v | None \<Rightarrow> 0)"
    "param_getitem (p_flowback_rates m) =
       (\<lambda>ix. case map_of y3 ix of Some v \<Rightarrow> v | None \<Rightarrow> 0)"
    "param_getitem (p_production_rates m) =
       (\<lambda>ix. case map_of y4 ix of Some v \<Rightarrow> v | None \<Rightarrow> 0)"
    "param_getitem (p_initial_disposal_capacity m) =
       (\<lambda>ix. case map_of y5 ix of Some v \<Rightarrow> v | None \<Rightarrow> 0)"
    "param_getitem (p_two_index_column m) =
       (\<lambda>ix. case map_of y6 ix of Some v \<Rightarrow> v | None \<Rightarrow> 0)"
proof -
  from assms obtain md x1 x2 x3 x4 x5 y1 y2 y3 y4 y5 y6 where
    s: "df_sets ''ProductionPads'' = Some x1" "df_sets ''CompletionsPads'' = Some x2"
      "df_sets ''ProductionTanks'' = Some x3" "df_sets ''SWDSites'' = Some x4"
      "df_sets ''TimePeriods'' = Some x5"
      "df_parameters ''DriveTimes'' = Some y1" "df_parameters ''CompletionsDemand'' = Some y2"
      "df_parameters ''FlowbackRates'' = Some y3" "df_parameters ''ProductionRates'' = Some y4"
      "df_parameters ''InitialDisposalCapacity'' = Some y5"
      "df_parameters ''TwoIndexColumnParam'' = Some y6"
    and sets: "p md = Set_initialize x1" "c md = Set_initialize x2" "a md = Set_initialize x3"
      "d md = Set_initialize x4" "t md = Set_initialize x5"
      "l md = Set_initialize (set_union (set_union (set_union (p md) (c md)) (a md)) (d md))"
    and qs: "Param ''p_drive_times'' [l md, l md] 0 y1 = Inr (p_drive_times md)"
      "Param ''p_completion_demand'' [c md, t md] 0 y2 = Inr (p_completion_demand md)"
      "Param ''p_flowback_rates'' [c md, t md] 0 y3 = Inr (p_flowback_rates md)"
      "Param ''p_production_rates'' [p md, a md, t md] 0 y4 = Inr (p_production_rates md)"
      "Param ''p_initial_disposal_capacity'' [d md] 0 y5 = Inr (p_initial_disposal_capacity md)"
      "Param ''p_two_index_column'' [d md, d md] 0 y6 = Inr (p_two_index_column md)"
    and dc: "declare_constraints disp md = Inr m"
    by (rule create_model_Inr)
  from dc obtain e1 e2 e3 e4 e5 e6 where m: "m = register md e1 e2 e3 e4 e5 e6"
    unfolding declare_constraints_Inr by blast
  have get: "param_getitem q = (\<lambda>ix. case map_of y ix of Some v \<Rightarrow> v | None \<Rightarrow> 0)"
    if "Param n S 0 y = Inr q" for n S y q
    using that
    by (auto simp: Param_Inr_iff param_getitem_def fun_eq_iff split: option.splits)
  show thesis
    by (rule that [of x1 x2 x3 x4 x5 y1 y2 y3 y4 y5 y6])
      (simp_all add: s m register_simps sets [symmetric] get [OF qs(1)] get [OF qs(2)]
        get [OF qs(3)] get [OF qs(4)] get [OF qs(5)] get [OF qs(6)])
qed

section \<open>The example inputs, evaluated\<close>

lemma scenario_sets_lookup:
  "scenario_sets ''ProductionPads'' = Some [''P1'']"
  "scenario_sets ''CompletionsPads'' = Some [''C1'']"
  "scenario_sets ''ProductionTanks'' = Some [''A1'']"
  "scenario_sets ''SWDSites'' = Some [''D1'']"
  "scenario_sets ''TimePeriods'' = Some [''T1'']"
  by (simp_all add: scenario_sets_def)

lemma scenario_parameters_lookup:
  "scenario_parameters ''DriveTimes'' = Some []"
  "scenario_parameters ''CompletionsDemand'' = Some []"
  "scenario_parameters ''FlowbackRates'' = Some []"
  "scenario_parameters ''ProductionRates'' = Some []"
  "scenario_parameters ''InitialDisposalCapacity'' = Some [([''D1''], 50)]"
  "scenario_parameters ''TwoIndexColumnParam'' = Some []"
  by (simp_all add: scenario_parameters_def)

lemma example_parameters_lookup:
  "example_parameters ''DriveTimes'' = Some [([''P1'', ''C1''], 3)]"
  "example_parameters ''CompletionsDemand'' = Some [([''C1'', ''T1''], 5)]"
  "example_parameters ''FlowbackRates'' = Some [([''C1'', ''T1''], 7)]"
  "example_parameters ''ProductionRates'' = Some [([''P1'', ''A1'', ''T1''], 11)]"
  "example_parameters ''InitialDisposalCapacity'' = Some [([''D1''], 50)]"
  "example_parameters ''TwoIndexColumnParam'' = Some []"
  by (simp_all add: example_parameters_def)

lemma Set_initialize_single: "Set_initialize [x] = [x]" "Set_initialize [] = []"
  by (simp_all add: Set_initialize_def set_add_def)

lemma scenario_locations:
  "Set_initialize (set_union (set_union (set_union [''P1''] [''C1'']) [''A1'']) [''D1'']) =
     [''P1'', ''C1'', ''A1'', ''D1'']"
  by (simp add: Set_initialize_def set_union_def set_add_def)

lemma scenario_well_formed: "inputs_well_formed scenario_sets scenario_parameters"
  by (simp add: inputs_well_formed_def scenario_sets_lookup scenario_parameters_lookup
      Set_initialize_single scenario_locations table_valid_def valid_index_def)

lemma example_well_formed: "inputs_well_formed scenario_sets example_parameters"
  by (simp add: inputs_well_formed_def scenario_sets_lookup example_parameters_lookup
      Set_initialize_single scenario_locations table_valid_def valid_index_def)

lemma scenario_returns:
  "\<exists>m. create_model ModelOnly scenario_sets scenario_parameters = Inr m"
  by (rule create_model_returns [OF scenario_well_formed])

lemma example_returns:
  "\<exists>m. create_model ModelOnly scenario_sets example_parameters = Inr m"
  by (rule create_model_returns [OF example_well_formed])

text \<open>
  The sets and the rules of the model returned at the example inputs. The set \<open>l\<close> is
  \<open>P1, C1, A1, D1\<close>.
\<close>

lemma example_model:
  assumes "create_model disp scenario_sets example_parameters = Inr m"
  shows "t m = [''T1'']" and "d m = [''D1'']" and "l m = [''P1'', ''C1'', ''A1'', ''D1'']"
    and "DriveTimesEquationRule m = Equality (VarRef ''v_drive_times'' []) 3"
    and "CompletionDemandRule m ''T1'' = Equality (VarRef ''v_completion_demand'' [''T1'']) 5"
    and "FlowBackRatesRule m = Equality (VarRef ''v_flowback_rates'' []) 7"
    and "ProductionRatesRule m = Equality (VarRef ''v_production_rates'' []) 11"
    and "DisposalCapacityRule m = Equality (VarRef ''v_disposal_capacity'' []) 50"
    and "TwoIndexColumnParameterRule m ''D1'' =
           Equality (VarRef ''v_two_index_param'' [''D1'']) 0"
proof -
  note rm = returned_model [OF assms]
  from assms obtain x1 x2 x3 x4 x5 y1 y2 y3 y4 y5 y6 where
    s: "scenario_sets ''ProductionPads'' = Some x1" "scenario_sets ''CompletionsPads'' = Some x2"
      "scenario_sets ''ProductionTanks'' = Some x3" "scenario_sets ''SWDSites'' = Some x4"
      "scenario_sets ''TimePeriods'' = Some x5"
      "example_parameters ''DriveTimes'' = Some y1"
      "example_parameters ''CompletionsDemand'' = Some y2"
      "example_parameters ''FlowbackRates'' = Some y3"
      "example_parameters ''ProductionRates'' = Some y4"
      "example_parameters ''InitialDisposalCapacity'' = Some y5"
      "example_parameters ''TwoIndexColumnParam'' = Some y6"
    and sets: "p m = Set_initialize x1" "c m = Set_initialize x2" "a m = Set_initialize x3"
      "d m = Set_initialize x4" "t m = Set_initialize x5"
    and lm: "l m = Set_initialize (set_union (set_union (set_union (p m) (c m)) (a m)) (d m))"
    and get: "param_getitem (p_drive_times m) =
        (\<lambda>ix. case map_of y1 ix of Some v \<Rightarrow> v | None \<Rightarrow> 0)"
      "param_getitem (p_completion_demand m) =
        (\<lambda>ix. case map_of y2 ix of Some v \<Rightarrow> v | None \<Rightarrow> 0)"
      "param_getitem (p_flowback_rates m) =
        (\<lambda>ix. case map_of y3 ix of Some v \<Rightarrow> v | None \<Rightarrow> 0)"
      "param_getitem (p_production_rates m) =
        (\<lambda>ix. case map_of y4 ix of Some v \<Rightarrow> v | None \<Rightarrow> 0)"
      "param_getitem (p_initial_disposal_capacity m) =
        (\<lambda>ix. case map_of y5 ix of Some v \<Rightarrow> v | None \<Rightarrow> 0)"
      "param_getitem (p_two_index_column m) =
        (\<lambda>ix. case map_of y6 ix of Some v \<Rightarrow> v | None \<Rightarrow> 0)"
    by (rule returned_model_data)
  from s have x: "x1 = [''P1'']" "x2 = [''C1'']" "x3 = [''A1'']" "x4 = [''D1'']"
    "x5 = [''T1'']"
    and y: "y1 = [([''P1'', ''C1''], 3)]" "y2 = [([''C1'', ''T1''], 5)]"
      "y3 = [([''C1'', ''T1''], 7)]" "y4 = [([''P1'', ''A1'', ''T1''], 11)]"
      "y5 = [([''D1''], 50)]" "y6 = []"
    by (simp_all add: scenario_sets_lookup example_parameters_lookup)
  have ms: "p m = [''P1'']" "c m = [''C1'']" "a m = [''A1'']" "d m = [''D1'']"
    "t m = [''T1'']"
    by (simp_all add: sets x Set_initialize_single)
  have ml: "l m = [''P1'', ''C1'', ''A1'', ''D1'']"
    by (simp add: lm ms scenario_locations)
  show "t m = [''T1'']" and "d m = [''D1'']" and "l m = [''P1'', ''C1'', ''A1'', ''D1'']"
    by (simp_all add: ms ml)
  show "DriveTimesEquationRule m = Equality (VarRef ''v_drive_times'' []) 3"
    by (simp add: DriveTimesEquationRule_def var_scalar_def rm ml get y)
  show "CompletionDemandRule m ''T1'' = Equality (VarRef ''v_completion_demand'' [''T1'']) 5"
    by (simp add: CompletionDemandRule_def var_getitem_def rm ms get y)
  show "FlowBackRatesRule m = Equality (VarRef ''v_flowback_rates'' []) 7"
    by (simp add: FlowBackRatesRule_def var_scalar_def rm ms get y)
  show "ProductionRatesRule m = Equality (VarRef ''v_production_rates'' []) 11"
    by (simp add: ProductionRatesRule_def var_scalar_def rm ms get y)
  show "DisposalCapacityRule m = Equality (VarRef ''v_disposal_capacity'' []) 50"
    by (simp add: DisposalCapacityRule_def var_scalar_def rm ms get y)
  show "TwoIndexColumnParameterRule m ''D1'' =
      Equality (VarRef ''v_two_index_param'' [''D1'']) 0"
    by (simp add: TwoIndexColumnParameterRule_def var_getitem_def rm ms get y)
qed

lemma scenario_model:
  assumes "create_model disp scenario_sets scenario_parameters = Inr m"
  shows "t m = [''T1'']" and "d m = [''D1'']" and "l m = [''P1'', ''C1'', ''A1'', ''D1'']"
    and "DriveTimesEquationRule m = Equality (VarRef ''v_drive_times'' []) 0"
    and "DisposalCapacityRule m = Equality (VarRef ''v_disposal_capacity'' []) 50"
    and "param_getitem (p_initial_disposal_capacity m) [''D1''] = 50"
proof -
  note rm = returned_model [OF assms]
  from assms obtain x1 x2 x3 x4 x5 y1 y2 y3 y4 y5 y6 where
    s: "scenario_sets ''ProductionPads'' = Some x1" "scenario_sets ''CompletionsPads'' = Some x2"
      "scenario_sets ''ProductionTanks'' = Some x3" "scenario_sets ''SWDSites'' = Some x4"
      "scenario_sets ''TimePeriods'' = Some x5"
      "scenario_parameters ''DriveTimes'' = Some y1"
      "scenario_parameters ''CompletionsDemand'' = Some y2"
      "scenario_parameters ''FlowbackRates'' = Some y3"
      "scenario_parameters ''ProductionRates'' = Some y4"
      "scenario_parameters ''InitialDisposalCapacity'' = Some y5"
      "scenario_parameters ''TwoIndexColumnParam'' = Some y6"
    and sets: "p m = Set_initialize x1" "c m = Set_initialize x2" "a m = Set_initialize x3"
      "d m = Set_initialize x4" "t m = Set_initialize x5"
    and lm: "l m = Set_initialize (set_union (set_union (set_union (p m) (c m)) (a m)) (d m))"
    and get: "param_getitem (p_drive_times m) =
        (\<lambda>ix. case map_of y1 ix of Some v \<Rightarrow> v | None \<Rightarrow> 0)"
      "param_getitem (p_initial_disposal_capacity m) =
        (\<lambda>ix. case map_of y5 ix of Some v \<Rightarrow> v | None \<Rightarrow> 0)"
    by (rule returned_model_data)
  from s have x: "x1 = [''P1'']" "x2 = [''C1'']" "x3 = [''A1'']" "x4 = [''D1'']"
    "x5 = [''T1'']"
    and y: "y1 = []" "y5 = [([''D1''], 50)]"
    by (simp_all add: scenario_sets_lookup scenario_parameters_lookup)
  have ms: "p m = [''P1'']" "c m = [''C1'']" "a m = [''A1'']" "d m = [''D1'']"
    "t m = [''T1'']"
    by (simp_all add: sets x Set_initialize_single)
  have ml: "l m = [''P1'', ''C1'', ''A1'', ''D1'']"
    by (simp add: lm ms scenario_locations)
  show "t m = [''T1'']" and "d m = [''D1'']" and "l m = [''P1'', ''C1'', ''A1'', ''D1'']"
    by (simp_all add: ms ml)
  show "DriveTimesEquationRule m = Equality (VarRef ''v_drive_times'' []) 0"
    by (simp add: DriveTimesEquationRule_def var_scalar_def rm ml get y)
  show "DisposalCapacityRule m = Equality (VarRef ''v_disposal_capacity'' []) 50"
    by (simp add: DisposalCapacityRule_def var_scalar_def rm ms get y)
  show "param_getitem (p_initial_disposal_capacity m) [''D1''] = 50"
    by (simp add: get y)
qed

section \<open>The constraints of a returned model\<close>

lemma lhs_rules:
  "lhs (DriveTimesEquationRule m) = VarRef (var_name (v_drive_times m)) []"
  "lhs (CompletionDemandRule m i) = VarRef (var_name (v_completion_demand m)) [i]"
  "lhs (FlowBackRatesRule m) = VarRef (var_name (v_flowback_rates m)) []"
  "lhs (ProductionRatesRule m) = VarRef (var_name (v_production_rates m)) []"
  "lhs (DisposalCapacityRule m) = VarRef (var_name (v_disposal_capacity m)) []"
  "lhs (TwoIndexColumnParameterRule m i) = VarRef (var_name (v_two_index_param m)) [i]"
  by (simp_all add: DriveTimesEquationRule_def CompletionDemandRule_def
      FlowBackRatesRule_def ProductionRatesRule_def DisposalCapacityRule_def
      TwoIndexColumnParameterRule_def var_scalar_def var_getitem_def)



text \<open>
  C5. In every model that \<open>create_model\<close> returns, \<open>e_completion_demand\<close> (at each of
  its indices), \<open>e_flowback_rates\<close> and \<open>e_production_rates\<close> have the body of
  \<open>DriveTimesEquationRule\<close>, which constrains \<open>v_drive_times\<close>, and not the body of the
  rule defined just above each registration (\<open>CompletionDemandRule\<close>,
  \<open>FlowBackRatesRule\<close>, \<open>ProductionRatesRule\<close>).
\<close>

theorem registered_with_DriveTimesEquationRule:
  assumes "create_model disp df_sets df_parameters = Inr m"
  shows "e_completion_demand m = map (\<lambda>i. (i, DriveTimesEquationRule m)) (t m) \<and>
         e_flowback_rates m = DriveTimesEquationRule m \<and>
         e_production_rates m = DriveTimesEquationRule m \<and>
         lhs (DriveTimesEquationRule m) = VarRef ''v_drive_times'' [] \<and>
         (\<forall>i. DriveTimesEquationRule m \<noteq> CompletionDemandRule m i) \<and>
         e_flowback_rates m \<noteq> FlowBackRatesRule m \<and>
         e_production_rates m \<noteq> ProductionRatesRule m"
proof -
  note rm = returned_model [OF assms]
  have l1: "lhs (DriveTimesEquationRule m) = VarRef ''v_drive_times'' []"
    by (simp add: lhs_rules rm)
  have l2: "lhs (CompletionDemandRule m i) = VarRef ''v_completion_demand'' [i]" for i
    by (simp add: lhs_rules rm)
  have l3: "lhs (FlowBackRatesRule m) = VarRef ''v_flowback_rates'' []"
    by (simp add: lhs_rules rm)
  have l4: "lhs (ProductionRatesRule m) = VarRef ''v_production_rates'' []"
    by (simp add: lhs_rules rm)
  have n2: "DriveTimesEquationRule m \<noteq> CompletionDemandRule m i" for i
  proof
    assume "DriveTimesEquationRule m = CompletionDemandRule m i"
    then have "lhs (DriveTimesEquationRule m) = lhs (CompletionDemandRule m i)"
      by simp
    then show False by (simp add: l1 l2)
  qed
  have n3: "DriveTimesEquationRule m \<noteq> FlowBackRatesRule m"
  proof
    assume "DriveTimesEquationRule m = FlowBackRatesRule m"
    then have "lhs (DriveTimesEquationRule m) = lhs (FlowBackRatesRule m)"
      by simp
    then show False by (simp add: l1 l3)
  qed
  have n4: "DriveTimesEquationRule m \<noteq> ProductionRatesRule m"
  proof
    assume "DriveTimesEquationRule m = ProductionRatesRule m"
    then have "lhs (DriveTimesEquationRule m) = lhs (ProductionRatesRule m)"
      by simp
    then show False by (simp add: l1 l4)
  qed
  show ?thesis
    using rm(2,3,4) l1 n2 n3 n4 by simp
qed

theorem registered_with_DriveTimesEquationRule_witness:
  "case create_model ModelOnly scenario_sets example_parameters of
     Inl e \<Rightarrow> False
   | Inr m \<Rightarrow>
       e_completion_demand m = [(''T1'', Equality (VarRef ''v_drive_times'' []) 3)] \<and>
       e_flowback_rates m = Equality (VarRef ''v_drive_times'' []) 3 \<and>
       e_production_rates m = Equality (VarRef ''v_drive_times'' []) 3 \<and>
       DriveTimesEquationRule m = Equality (VarRef ''v_drive_times'' []) 3"
proof -
  from example_returns obtain m where
    m: "create_model ModelOnly scenario_sets example_parameters = Inr m" ..
  note dt = example_model(4) [OF m] and tm = example_model(1) [OF m]
  from registered_with_DriveTimesEquationRule [OF m]
  have "e_completion_demand m = map (\<lambda>i. (i, DriveTimesEquationRule m)) (t m)"
    and "e_flowback_rates m = DriveTimesEquationRule m"
    and "e_production_rates m = DriveTimesEquationRule m"
    by simp_all
  then show ?thesis
    by (simp add: m dt tm)
qed

text \<open>
  C6. In every model that \<open>create_model\<close> returns, \<open>l\<close> has exactly the members of
  \<open>p\<close>, \<open>c\<close>, \<open>a\<close> and \<open>d\<close>, each once; these four sets hold the labels that the
  input gives for \<^verbatim>\<open>ProductionPads\<close>, \<^verbatim>\<open>CompletionsPads\<close>, \<^verbatim>\<open>ProductionTanks\<close> and
  \<^verbatim>\<open>SWDSites\<close>; a label of \<open>t\<close> is in \<open>l\<close> only if it is in one of the four.
\<close>

theorem l_is_union:
  assumes "create_model disp df_sets df_parameters = Inr m"
  shows "set (l m) = set (p m) \<union> set (c m) \<union> set (a m) \<union> set (d m) \<and>
         distinct (l m) \<and>
         set (l m) \<inter> set (t m) \<subseteq> set (p m) \<union> set (c m) \<union> set (a m) \<union> set (d m) \<and>
         (\<exists>x1 x2 x3 x4.
            df_sets ''ProductionPads'' = Some x1 \<and> set (p m) = set x1 \<and>
            df_sets ''CompletionsPads'' = Some x2 \<and> set (c m) = set x2 \<and>
            df_sets ''ProductionTanks'' = Some x3 \<and> set (a m) = set x3 \<and>
            df_sets ''SWDSites'' = Some x4 \<and> set (d m) = set x4)"
proof -
  from assms obtain x1 x2 x3 x4 where
    s: "df_sets ''ProductionPads'' = Some x1" "df_sets ''CompletionsPads'' = Some x2"
      "df_sets ''ProductionTanks'' = Some x3" "df_sets ''SWDSites'' = Some x4"
    and sets: "p m = Set_initialize x1" "c m = Set_initialize x2"
      "a m = Set_initialize x3" "d m = Set_initialize x4"
    and lm: "l m = Set_initialize
      (set_union (set_union (set_union (p m) (c m)) (a m)) (d m))"
    by (rule returned_model_data)
  have u: "set (l m) = set (p m) \<union> set (c m) \<union> set (a m) \<union> set (d m)"
    by (simp add: lm set_Set_initialize set_set_union)
  have dl: "distinct (l m)"
    by (simp add: lm distinct_Set_initialize)
  have inputs: "set (p m) = set x1" "set (c m) = set x2" "set (a m) = set x3"
    "set (d m) = set x4"
    by (simp_all add: sets set_Set_initialize)
  from u have "set (l m) \<inter> set (t m) \<subseteq> set (p m) \<union> set (c m) \<union> set (a m) \<union> set (d m)"
    by blast
  with u dl s inputs show ?thesis
    by blast
qed

theorem l_is_union_witness:
  "case create_model ModelOnly scenario_sets scenario_parameters of
     Inl e \<Rightarrow> False
   | Inr m \<Rightarrow>
       l m = [''P1'', ''C1'', ''A1'', ''D1''] \<and> t m = [''T1''] \<and>
       set (l m) = set (p m) \<union> set (c m) \<union> set (a m) \<union> set (d m) \<and>
       distinct (l m)"
proof -
  from scenario_returns obtain m where
    m: "create_model ModelOnly scenario_sets scenario_parameters = Inr m" ..
  note lm = scenario_model(3) [OF m] and tm = scenario_model(1) [OF m]
  from l_is_union [OF m]
  have "set (l m) = set (p m) \<union> set (c m) \<union> set (a m) \<union> set (d m)" and "distinct (l m)"
    by simp_all
  then show ?thesis
    unfolding m by (simp add: lm tm)
qed

text \<open>
  C10. In every model that \<open>create_model\<close> returns, the scalar variables
  \<open>v_flowback_rates\<close> and \<open>v_production_rates\<close> occur in no constraint (the constraints
  \<open>e_flowback_rates\<close> and \<open>e_production_rates\<close> both constrain \<open>v_drive_times\<close>); an
  assignment that satisfies all constraints still satisfies them after the two
  variables are given any values, in particular any non-negative ones.
\<close>

theorem flowback_and_production_unconstrained:
  assumes "create_model disp df_sets df_parameters = Inr m"
  shows "lhs (e_flowback_rates m) = var_scalar (v_drive_times m) \<and>
         lhs (e_production_rates m) = var_scalar (v_drive_times m) \<and>
         (\<forall>b \<in> set (constraints m).
            lhs b \<noteq> var_scalar (v_flowback_rates m) \<and>
            lhs b \<noteq> var_scalar (v_production_rates m)) \<and>
         (\<forall>asg x y. list_all (holds asg) (constraints m) \<longrightarrow>
            list_all (holds (asg(var_scalar (v_flowback_rates m) := x,
                                 var_scalar (v_production_rates m) := y)))
              (constraints m))"
proof -
  note rm = returned_model [OF assms]
  have vf: "var_scalar (v_flowback_rates m) = VarRef ''v_flowback_rates'' []"
    and vp: "var_scalar (v_production_rates m) = VarRef ''v_production_rates'' []"
    and vd: "var_scalar (v_drive_times m) = VarRef ''v_drive_times'' []"
    by (simp_all add: var_scalar_def rm)
  have cs: "constraints m =
      DriveTimesEquationRule m # map (\<lambda>i. DriveTimesEquationRule m) (t m) @
      [DriveTimesEquationRule m, DriveTimesEquationRule m, DisposalCapacityRule m] @
      map (TwoIndexColumnParameterRule m) (d m)"
    by (simp add: constraints_def rm(1-6) comp_def)
  have free: "lhs b \<noteq> VarRef ''v_flowback_rates'' [] \<and>
      lhs b \<noteq> VarRef ''v_production_rates'' []" if "b \<in> set (constraints m)" for b
    using that unfolding cs by (auto simp: lhs_rules rm)
  have keep: "list_all (holds (asg(VarRef ''v_flowback_rates'' [] := x,
      VarRef ''v_production_rates'' [] := y))) (constraints m)"
    if "list_all (holds asg) (constraints m)" for asg x y
    using that free by (auto simp: list_all_iff holds_def)
  have "lhs (e_flowback_rates m) = var_scalar (v_drive_times m)"
    and "lhs (e_production_rates m) = var_scalar (v_drive_times m)"
    by (simp_all add: rm(3,4) lhs_rules var_scalar_def)
  with free keep show ?thesis
    by (simp add: vf vp)
qed

theorem flowback_and_production_unconstrained_witness:
  "case create_model ModelOnly scenario_sets example_parameters of
     Inl e \<Rightarrow> False
   | Inr m \<Rightarrow>
       lhs (e_flowback_rates m) = VarRef ''v_drive_times'' [] \<and>
       lhs (e_production_rates m) = VarRef ''v_drive_times'' [] \<and>
       list_all
         (holds ((\<lambda>v. 0)(VarRef ''v_drive_times'' [] := 3,
                         VarRef ''v_disposal_capacity'' [] := 50)))
         (constraints m) \<and>
       list_all
         (holds ((\<lambda>v. 0)(VarRef ''v_drive_times'' [] := 3,
                         VarRef ''v_disposal_capacity'' [] := 50,
                         var_scalar (v_flowback_rates m) := 1000,
                         var_scalar (v_production_rates m) := 0)))
         (constraints m)"
proof -
  from example_returns obtain m where
    m: "create_model ModelOnly scenario_sets example_parameters = Inr m" ..
  note rm = returned_model [OF m] and em = example_model [OF m]
  let ?asg = "(\<lambda>v. 0)(VarRef ''v_drive_times'' [] := 3,
      VarRef ''v_disposal_capacity'' [] := 50) :: varref \<Rightarrow> real"
  have sat: "list_all (holds ?asg) (constraints m)"
    by (simp add: constraints_def rm(1-6) em holds_def)
  from flowback_and_production_unconstrained [OF m]
  have l1: "lhs (e_flowback_rates m) = var_scalar (v_drive_times m)"
    and l2: "lhs (e_production_rates m) = var_scalar (v_drive_times m)"
    and keep: "\<forall>asg x y. list_all (holds asg) (constraints m) \<longrightarrow>
        list_all (holds (asg(var_scalar (v_flowback_rates m) := x,
                             var_scalar (v_production_rates m) := y))) (constraints m)"
    by simp_all
  from keep sat have "list_all (holds (?asg(var_scalar (v_flowback_rates m) := 1000,
      var_scalar (v_production_rates m) := 0))) (constraints m)"
    by blast
  with sat l1 l2 show ?thesis
    unfolding m by (simp add: var_scalar_def rm)
qed

section \<open>Missing names and keys outside the index sets\<close>







section \<open>The registration of e\_completion\_demand\<close>

text \<open>
  C4, as amended. For every input that is well-formed (the five set names and the six
  parameter names are present and every key of every table is within the index sets of
  its parameter), whether or not \<^verbatim>\<open>TimePeriods\<close> is empty, \<open>create_model\<close> raises no
  \<^verbatim>\<open>TypeError\<close>: the outcome is decided by what the library does with the one-parameter
  rule \<open>DriveTimesEquationRule\<close> for the indexed constraint \<open>e_completion_demand\<close>.
  Where the library calls the rule with the model alone, \<open>create_model\<close> returns a model
  in which \<open>e_completion_demand\<close> has the body of \<open>DriveTimesEquationRule\<close> at every
  time period; where the library rejects such a rule, \<open>create_model\<close> ends in the
  \<^verbatim>\<open>IndexError\<close> of that registration and returns no model.
\<close>

theorem completion_demand_registration:
  assumes "inputs_well_formed df_sets df_parameters"
  shows "(\<exists>m. create_model ModelOnly df_sets df_parameters = Inr m \<and>
              e_completion_demand m = map (\<lambda>i. (i, DriveTimesEquationRule m)) (t m)) \<and>
         create_model RejectModelRule df_sets df_parameters =
           Inl (IndexError
             ''Cannot initialize multiple indices of a constraint with a single expression'') \<and>
         (\<forall>disp msg. create_model disp df_sets df_parameters \<noteq> Inl (TypeError msg))"
proof -
  from create_model_returns [OF assms] obtain m where
    m: "create_model ModelOnly df_sets df_parameters = Inr m" ..
  have e: "e_completion_demand m = map (\<lambda>i. (i, DriveTimesEquationRule m)) (t m)"
    by (rule returned_model(2) [OF m])
  have r: "create_model RejectModelRule df_sets df_parameters =
      Inl (IndexError
        ''Cannot initialize multiple indices of a constraint with a single expression'')"
    by (rule create_model_RejectModelRule [OF assms])
  have "create_model disp df_sets df_parameters \<noteq> Inl (TypeError msg)" for disp msg
    by (cases disp) (simp_all add: m r)
  with m e r show ?thesis
    by blast
qed

theorem completion_demand_registration_witness:
  "(\<exists>m. create_model ModelOnly scenario_sets example_parameters = Inr m \<and>
        t m = [''T1''] \<and>
        e_completion_demand m = [(''T1'', Equality (VarRef ''v_drive_times'' []) 3)]) \<and>
   create_model RejectModelRule scenario_sets example_parameters =
     Inl (IndexError
       ''Cannot initialize multiple indices of a constraint with a single expression'')"
proof -
  from completion_demand_registration [OF example_well_formed]
  obtain m where m: "create_model ModelOnly scenario_sets example_parameters = Inr m"
    and e: "e_completion_demand m = map (\<lambda>i. (i, DriveTimesEquationRule m)) (t m)"
    and r: "create_model RejectModelRule scenario_sets example_parameters =
      Inl (IndexError
        ''Cannot initialize multiple indices of a constraint with a single expression'')"
    by blast
  note dt = example_model(4) [OF m] and tm = example_model(1) [OF m]
  from m e r show ?thesis
    by (simp add: dt tm)
qed

text \<open>
  C4 as stated fails at the scenario's input, whose \<^verbatim>\<open>TimePeriods\<close> is \<open>T1\<close>: where the
  library calls the rule with the model alone a model is returned, and where it rejects
  the rule the error is an \<^verbatim>\<open>IndexError\<close>, not a \<^verbatim>\<open>TypeError\<close>.
\<close>

theorem TypeError_counterexample:
  "scenario_sets ''TimePeriods'' = Some [''T1''] \<and>
   \<not> isl (create_model ModelOnly scenario_sets scenario_parameters) \<and>
   create_model RejectModelRule scenario_sets scenario_parameters =
     Inl (IndexError
       ''Cannot initialize multiple indices of a constraint with a single expression'')"
proof -
  from scenario_returns
  have "\<not> isl (create_model ModelOnly scenario_sets scenario_parameters)"
    by auto
  then show ?thesis
    by (simp add: scenario_sets_lookup create_model_RejectModelRule [OF scenario_well_formed])
qed

text \<open>
  C2 fails on the code. At the example input, where the library calls the
  one-parameter rule with the model alone, the three constraints assert
  \<open>v_drive_times == 3\<close>, where the rules written for them would assert
  \<open>v_completion_demand[T1] == 5\<close>, \<open>v_flowback_rates == 7\<close> and
  \<open>v_production_rates == 11\<close>; where the library rejects such a rule for an indexed
  constraint no model is returned at all.
\<close>

theorem wrong_rule_at_example:
  "(\<exists>m. create_model ModelOnly scenario_sets example_parameters = Inr m \<and>
        e_completion_demand m = [(''T1'', Equality (VarRef ''v_drive_times'' []) 3)] \<and>
        CompletionDemandRule m ''T1'' = Equality (VarRef ''v_completion_demand'' [''T1'']) 5 \<and>
        e_flowback_rates m = Equality (VarRef ''v_drive_times'' []) 3 \<and>
        FlowBackRatesRule m = Equality (VarRef ''v_flowback_rates'' []) 7 \<and>
        e_production_rates m = Equality (VarRef ''v_drive_times'' []) 3 \<and>
        ProductionRatesRule m = Equality (VarRef ''v_production_rates'' []) 11) \<and>
   create_model RejectModelRule scenario_sets example_parameters =
     Inl (IndexError
       ''Cannot initialize multiple indices of a constraint with a single expression'')"
proof -
  from example_returns obtain m where
    m: "create_model ModelOnly scenario_sets example_parameters = Inr m" ..
  note rm = returned_model [OF m] and em = example_model [OF m]
  have "e_completion_demand m = [(''T1'', Equality (VarRef ''v_drive_times'' []) 3)]"
    and "e_flowback_rates m = Equality (VarRef ''v_drive_times'' []) 3"
    and "e_production_rates m = Equality (VarRef ''v_drive_times'' []) 3"
    by (simp_all add: rm(2,3,4) em(1,4))
  with m em(5,6,7)
  have "\<exists>m. create_model ModelOnly scenario_sets example_parameters = Inr m \<and>
      e_completion_demand m = [(''T1'', Equality (VarRef ''v_drive_times'' []) 3)] \<and>
      CompletionDemandRule m ''T1'' = Equality (VarRef ''v_completion_demand'' [''T1'']) 5 \<and>
      e_flowback_rates m = Equality (VarRef ''v_drive_times'' []) 3 \<and>
      FlowBackRatesRule m = Equality (VarRef ''v_flowback_rates'' []) 7 \<and>
      e_production_rates m = Equality (VarRef ''v_drive_times'' []) 3 \<and>
      ProductionRatesRule m = Equality (VarRef ''v_production_rates'' []) 11"
    by blast
  then show ?thesis
    by (simp add: create_model_RejectModelRule [OF example_well_formed])
qed

section \<open>The data loader\<close>

lemma read_set_tabs_Inl:
  "\<not> list_all (set_tab_ok wb) ns \<Longrightarrow>
   \<exists>n \<in> set ns. \<not> set_tab_ok wb n \<and> read_set_tabs wb ns acc = Inl (DataFormatError n)"
proof (induction ns arbitrary: acc)
  case Nil
  then show ?case by simp
next
  case (Cons n ns)
  show ?case
  proof (cases "set_tab_ok wb n")
    case True
    then obtain xs where xs: "wb n = Some (SetTab xs)"
      by (auto simp: set_tab_ok_def split: option.splits tab.splits)
    from True Cons.prems have "\<not> list_all (set_tab_ok wb) ns"
      by simp
    from Cons.IH [OF this, of "acc(n \<mapsto> xs)"] obtain k where
      k: "k \<in> set ns" "\<not> set_tab_ok wb k"
        "read_set_tabs wb ns (acc(n \<mapsto> xs)) = Inl (DataFormatError k)"
      by blast
    have "read_set_tabs wb (n # ns) acc = read_set_tabs wb ns (acc(n \<mapsto> xs))"
      by (simp only: read_set_tabs.simps xs option.case tab.case)
    with k show ?thesis
      by (intro bexI [of _ k]) simp_all
  next
    case False
    then have "read_set_tabs wb (n # ns) acc = Inl (DataFormatError n)"
      by (auto simp: set_tab_ok_def split: option.splits tab.splits)
    with False show ?thesis by auto
  qed
qed

lemma read_set_tabs_Inr:
  "list_all (set_tab_ok wb) ns \<Longrightarrow> \<exists>m. read_set_tabs wb ns acc = Inr m"
proof (induction ns arbitrary: acc)
  case Nil
  then show ?case by simp
next
  case (Cons n ns)
  then obtain xs where "wb n = Some (SetTab xs)"
    by (auto simp: set_tab_ok_def split: option.splits tab.splits)
  with Cons show ?case by simp
qed

lemma read_parameter_tabs_Inl:
  "\<not> list_all (parameter_tab_ok wb) ns \<Longrightarrow>
   \<exists>n \<in> set ns. \<not> parameter_tab_ok wb n \<and>
     read_parameter_tabs wb ns acc = Inl (DataFormatError n)"
proof (induction ns arbitrary: acc)
  case Nil
  then show ?case by simp
next
  case (Cons n ns)
  show ?case
  proof (cases "parameter_tab_ok wb n")
    case True
    then obtain tbl where tbl: "wb n = Some (ParamTab tbl)"
      by (auto simp: parameter_tab_ok_def split: option.splits tab.splits)
    from True Cons.prems have "\<not> list_all (parameter_tab_ok wb) ns"
      by simp
    from Cons.IH [OF this, of "acc(n \<mapsto> tbl)"] obtain k where
      k: "k \<in> set ns" "\<not> parameter_tab_ok wb k"
        "read_parameter_tabs wb ns (acc(n \<mapsto> tbl)) = Inl (DataFormatError k)"
      by blast
    have "read_parameter_tabs wb (n # ns) acc =
        read_parameter_tabs wb ns (acc(n \<mapsto> tbl))"
      by (simp only: read_parameter_tabs.simps tbl option.case tab.case)
    with k show ?thesis
      by (intro bexI [of _ k]) simp_all
  next
    case False
    then have "read_parameter_tabs wb (n # ns) acc = Inl (DataFormatError n)"
      by (auto simp: parameter_tab_ok_def split: option.splits tab.splits)
    with False show ?thesis by auto
  qed
qed

lemma read_parameter_tabs_Inr:
  "list_all (parameter_tab_ok wb) ns \<Longrightarrow> \<exists>m. read_parameter_tabs wb ns acc = Inr m"
proof (induction ns arbitrary: acc)
  case Nil
  then show ?case by simp
next
  case (Cons n ns)
  then obtain tbl where "wb n = Some (ParamTab tbl)"
    by (auto simp: parameter_tab_ok_def split: option.splits tab.splits)
  with Cons show ?case by simp
qed

text \<open>
  When every named tab is present and well-formed, the loader returns both mappings.
\<close>

lemma get_data_returns:
  assumes "files fpath = Some wb"
    and "list_all (set_tab_ok wb) sets" and "list_all (parameter_tab_ok wb) params"
  shows "\<exists>df_sets df_parameters.
           get_data files fpath sets params = Inr (df_sets, df_parameters)"
proof -
  from assms(2) obtain s where "read_set_tabs wb sets Map.empty = Inr s"
    using read_set_tabs_Inr by blast
  moreover from assms(3) obtain ps where "read_parameter_tabs wb params Map.empty = Inr ps"
    using read_parameter_tabs_Inr by blast
  ultimately show ?thesis
    by (simp add: get_data_def assms(1) seq_Inr)
qed

text \<open>
  C8. When the file is there and one of the requested set tabs or parameter tabs is
  absent from it or malformed, \<open>get_data\<close> ends in a \<^verbatim>\<open>DataFormatError\<close> for such a
  tab and returns no mapping; building the model from what \<open>get_data\<close> returns then
  ends in the same error, so no model results.
\<close>

theorem get_data_DataFormatError:
  assumes "files fpath = Some wb"
    and "\<not> (list_all (set_tab_ok wb) sets \<and> list_all (parameter_tab_ok wb) params)"
  shows "\<exists>n. get_data files fpath sets params = Inl (DataFormatError n) \<and>
           (n \<in> set sets \<and> \<not> set_tab_ok wb n \<or>
            n \<in> set params \<and> \<not> parameter_tab_ok wb n) \<and>
           seq (get_data files fpath sets params)
             (\<lambda>(df_sets, df_parameters). create_model disp df_sets df_parameters) =
             Inl (DataFormatError n)"
proof (cases "list_all (set_tab_ok wb) sets")
  case False
  then obtain n where "n \<in> set sets" "\<not> set_tab_ok wb n"
    "read_set_tabs wb sets Map.empty = Inl (DataFormatError n)"
    using read_set_tabs_Inl by blast
  then show ?thesis
    by (intro exI [of _ n]) (simp add: get_data_def assms(1) seq_Inl)
next
  case True
  then obtain s where s: "read_set_tabs wb sets Map.empty = Inr s"
    using read_set_tabs_Inr by blast
  from True assms(2) have "\<not> list_all (parameter_tab_ok wb) params"
    by simp
  then obtain n where "n \<in> set params" "\<not> parameter_tab_ok wb n"
    "read_parameter_tabs wb params Map.empty = Inl (DataFormatError n)"
    using read_parameter_tabs_Inl by blast
  then show ?thesis
    by (intro exI [of _ n]) (simp add: get_data_def assms(1) s seq_Inr seq_Inl)
qed

theorem get_data_DataFormatError_witness:
  "get_data [''toy.xlsx'' \<mapsto> [''ProductionPads'' \<mapsto> SetTab [''P1''],
              ''DriveTimes'' \<mapsto> MalformedTab]]
     ''toy.xlsx'' [''ProductionPads''] [''DriveTimes''] =
     Inl (DataFormatError ''DriveTimes'') \<and>
   get_data [''toy.xlsx'' \<mapsto> [''ProductionPads'' \<mapsto> SetTab [''P1''],
              ''DriveTimes'' \<mapsto> MalformedTab]]
     ''toy.xlsx'' [''ProductionPads'', ''SWDSites''] [''DriveTimes''] =
     Inl (DataFormatError ''SWDSites'')"
proof -
  let ?wb = "[''ProductionPads'' \<mapsto> SetTab [''P1''], ''DriveTimes'' \<mapsto> MalformedTab]"
  let ?files = "[''toy.xlsx'' \<mapsto> ?wb]"
  have f: "?files ''toy.xlsx'' = Some ?wb"
    by simp
  have ok: "set_tab_ok ?wb ''ProductionPads''" "\<not> set_tab_ok ?wb ''SWDSites''"
    "\<not> parameter_tab_ok ?wb ''DriveTimes''"
    by (simp_all add: set_tab_ok_def parameter_tab_ok_def)
  have h1: "\<not> (list_all (set_tab_ok ?wb) [''ProductionPads''] \<and>
      list_all (parameter_tab_ok ?wb) [''DriveTimes''])"
    by (simp add: ok)
  have h2: "\<not> (list_all (set_tab_ok ?wb) [''ProductionPads'', ''SWDSites''] \<and>
      list_all (parameter_tab_ok ?wb) [''DriveTimes''])"
    by (simp add: ok)
  from get_data_DataFormatError [of ?files "''toy.xlsx''" ?wb "[''ProductionPads'']"
      "[''DriveTimes'']" ModelOnly, OF f h1]
  have a: "get_data ?files ''toy.xlsx'' [''ProductionPads''] [''DriveTimes''] =
      Inl (DataFormatError ''DriveTimes'')"
    using ok by auto
  have b: "get_data ?files ''toy.xlsx'' [''ProductionPads'', ''SWDSites''] [''DriveTimes''] =
      Inl (DataFormatError ''SWDSites'')"
    by (simp add: get_data_def seq_Inl)
  from a b show ?thesis ..
qed

text \<open>
  The script as written: an absent or malformed tab among those it names ends it in a
  \<^verbatim>\<open>DataFormatError\<close>.
\<close>

lemma main_DataFormatError:
  assumes "files fpath = Some wb"
    and "\<not> (list_all (set_tab_ok wb) set_list \<and> list_all (parameter_tab_ok wb) parameter_list)"
  shows "\<exists>n. main disp files fpath = Inl (DataFormatError n)"
proof -
  have "\<exists>n. get_data files fpath set_list parameter_list = Inl (DataFormatError n)"
  proof (cases "list_all (set_tab_ok wb) set_list")
    case False
    then show ?thesis
      using read_set_tabs_Inl [of wb set_list Map.empty]
      by (auto simp: get_data_def assms(1) seq_Inl)
  next
    case True
    then obtain s where s: "read_set_tabs wb set_list Map.empty = Inr s"
      using read_set_tabs_Inr by blast
    from True assms(2) have "\<not> list_all (parameter_tab_ok wb) parameter_list"
      by simp
    then show ?thesis
      using read_parameter_tabs_Inl [of wb parameter_list Map.empty]
      by (auto simp: get_data_def assms(1) s seq_Inr seq_Inl)
  qed
  then show ?thesis
    by (auto simp: main_def seq_Inl)
qed

end
